theory Spec2Isabelle
  imports Main "HOL-Library.Sublist" "HOL-Library.Char_ord" "HOL-Library.List_Lexorder"
begin

section \<open>Strings\<close>

text \<open>
  A Python \<open>str\<close> is modelled as a \<open>string\<close>: a list of 8-bit characters, each standing
  for the code point of the same number (code points below 256). The ordering on strings
  is the lexicographic one on code points, as Python's \<open>sorted\<close> on \<open>str\<close> uses.
  The substring test \<open>a in b\<close> is \<^const>\<open>sublist\<close>.
\<close>

definition is_space :: "char \<Rightarrow> bool" where
  \<comment> \<open>\<open>str.isspace\<close> on one character, also the class \<open>\s\<close> of \<open>re\<close> on \<open>str\<close> patterns\<close>
  "is_space c = (c \<in> set [CHR 0x09, CHR 0x0A, CHR 0x0B, CHR 0x0C, CHR 0x0D,
                            CHR 0x1C, CHR 0x1D, CHR 0x1E, CHR 0x1F, CHR 0x20,
                            CHR 0x85, CHR 0xA0])"

definition strip :: "string \<Rightarrow> string" where
  \<comment> \<open>\<open>str.strip()\<close> with no argument\<close>
  "strip s = rev (dropWhile is_space (rev (dropWhile is_space s)))"

definition lower_char :: "char \<Rightarrow> char" where
  "lower_char c =
     (let n = (of_char c :: nat)
      in if (65 \<le> n \<and> n \<le> 90) \<or> (192 \<le> n \<and> n \<le> 222 \<and> n \<noteq> 215)
         then char_of (n + 32) else c)"

definition lower :: "string \<Rightarrow> string" where
  \<comment> \<open>\<open>str.lower()\<close>\<close>
  "lower s = map lower_char s"

definition is_linebreak :: "char \<Rightarrow> bool" where
  \<comment> \<open>the line boundaries of \<open>str.splitlines\<close> other than the pair CR LF\<close>
  "is_linebreak c = (c \<in> set [CHR 0x0A, CHR 0x0B, CHR 0x0C, CHR 0x0D,
                                CHR 0x1C, CHR 0x1D, CHR 0x1E, CHR 0x85])"

fun splitlines_from :: "string \<Rightarrow> string \<Rightarrow> string list" where
  \<comment> \<open>\<open>acc\<close> holds the characters of the current line, last one first\<close>
  "splitlines_from acc [] = (if acc = [] then [] else [rev acc])"
| "splitlines_from acc [c] =
     (if is_linebreak c then [rev acc] else [rev (c # acc)])"
| "splitlines_from acc (c # d # cs) =
     (if c = CHR 0x0D \<and> d = CHR 0x0A then rev acc # splitlines_from [] cs
      else if is_linebreak c then rev acc # splitlines_from [] (d # cs)
      else splitlines_from (c # acc) (d # cs))"

definition splitlines :: "string \<Rightarrow> string list" where
  \<comment> \<open>\<open>str.splitlines()\<close>, line ends dropped\<close>
  "splitlines s = splitlines_from [] s"

fun split_from :: "string \<Rightarrow> string \<Rightarrow> string list" where
  "split_from acc [] = (if acc = [] then [] else [rev acc])"
| "split_from acc (c # cs) =
     (if is_space c then (if acc = [] then split_from [] cs else rev acc # split_from [] cs)
      else split_from (c # acc) cs)"

definition split :: "string \<Rightarrow> string list" where
  \<comment> \<open>\<open>str.split()\<close> with no argument: the maximal runs of characters that are not
      whitespace. \<open>shlex.split\<close> gives the same words on a command line with no quote,
      backslash or \<open>#\<close>, the only kind this program passes to it.\<close>
  "split s = split_from [] s"

function str_of_nat :: "nat \<Rightarrow> string" where
  \<comment> \<open>the decimal digits of a number, as an f-string prints it\<close>
  "str_of_nat n =
     (if n < 10 then [char_of (48 + n)]
      else str_of_nat (n div 10) @ [char_of (48 + n mod 10)])"
  by pat_completeness auto
termination
  by (relation "measure id") auto

declare str_of_nat.simps [simp del]

definition sq :: string where
  \<comment> \<open>a single quote\<close>
  "sq = [CHR 0x27]"

section \<open>What a run does to the outside world\<close>

datatype event =
    LogDebug string         \<comment> \<open>\<open>log_debug\<close>: a line on standard error\<close>
  | PrintOut string         \<comment> \<open>\<open>print\<close>: a line on standard output\<close>
  | SubprocessRun "string list"  \<comment> \<open>\<open>subprocess.run\<close> called with this argument vector\<close>
  | Activate                \<comment> \<open>\<open>activateWithOptions_\<close> on the running application\<close>

datatype py_exception =
    TypeError | AttributeError | IndexError | FileNotFoundError | OtherException string

definition log_debug :: "string \<Rightarrow> event list" where
  "log_debug message = [LogDebug message]"

section \<open>The environment of one run\<close>

datatype psutil_error = NoSuchProcess | AccessDenied | ZombieProcess

datatype proc_entry =
    Cmdline "string list option"
      \<comment> \<open>\<open>proc.info["cmdline"]\<close>: a list of arguments, or \<open>None\<close>\<close>
  | Raises psutil_error
      \<comment> \<open>reading the entry raises: the process has gone or may not be inspected\<close>

datatype run_outcome =
    Completed string string int
      \<comment> \<open>\<open>subprocess.run\<close> returns: standard output, standard error, return code\<close>
  | RaisesFileNotFound
      \<comment> \<open>the executable is not in the environment\<close>
  | RaisesOther string
      \<comment> \<open>any other \<open>Exception\<close>, with its message\<close>

record window =
  kCGWindowOwnerName :: "string option"
  kCGWindowName :: "string option"

record env =
  process_iter :: "proc_entry list"
    \<comment> \<open>what \<open>psutil.process_iter(["cmdline"])\<close> yields\<close>
  subprocess_run :: "string list \<Rightarrow> run_outcome"
    \<comment> \<open>what \<open>subprocess.run\<close> does on an argument vector\<close>
  window_list :: "window list"
    \<comment> \<open>what \<open>Quartz.CGWindowListCopyWindowInfo\<close> returns\<close>
  running_applications :: nat
    \<comment> \<open>how many applications \<open>runningApplicationsWithBundleIdentifier_\<close> returns\<close>

section \<open>\<open>run_command\<close>\<close>

definition run_command ::
  "env \<Rightarrow> string \<Rightarrow> event list \<times> (py_exception + string \<times> string \<times> int)" where
  "run_command e command =
     (case subprocess_run e (split command) of
        Completed out err rc \<Rightarrow> ([SubprocessRun (split command)], Inr (out, err, rc))
      | RaisesFileNotFound \<Rightarrow>
          (case split command of
             [] \<Rightarrow> ([SubprocessRun (split command)], Inl IndexError)
           | w # _ \<Rightarrow>
               ([SubprocessRun (split command)] @ log_debug (''Command not found: '' @ w),
                Inr ([], ''Command not found: '' @ w, 127)))
      | RaisesOther msg \<Rightarrow>
          ([SubprocessRun (split command)] @
           log_debug (''An unexpected error occurred while running '' @ sq @ command @ sq @
                      '': '' @ msg),
           Inr ([], msg, 1)))"

section \<open>\<open>is_vscode_running\<close>\<close>

definition target_pattern :: string where
  "target_pattern = ''Visual Studio Code.app''"

fun scan_processes :: "proc_entry list \<Rightarrow> event list \<times> bool" where
  \<comment> \<open>the \<open>for proc in psutil.process_iter\<close> loop and the \<open>return False\<close> after it\<close>
  "scan_processes [] = ([], False)"
| "scan_processes (Raises err # rest) = scan_processes rest"
| "scan_processes (Cmdline None # rest) = scan_processes rest"
| "scan_processes (Cmdline (Some cmdline) # rest) =
     (if cmdline = [] then scan_processes rest
      else if list_ex (\<lambda>cmd_part. sublist target_pattern cmd_part) cmdline then ([], True)
      else scan_processes rest)"

definition is_vscode_running :: "env \<Rightarrow> event list \<times> bool" where
  "is_vscode_running e = scan_processes (process_iter e)"

section \<open>\<open>get_vscode_window_names_cg\<close>\<close>

datatype window_names = PyFalse | PyList "string list"
  \<comment> \<open>the function returns \<open>False\<close> or a list of titles\<close>

fun vscode_windows_of :: "window list \<Rightarrow> py_exception + window list" where
  \<comment> \<open>the comprehension over \<open>window_list\<close> with the test
      \<open>"code" in win.get("kCGWindowOwnerName").lower()\<close>: a window with no owner name
      gives \<open>None.lower()\<close>\<close>
  "vscode_windows_of [] = Inr []"
| "vscode_windows_of (win # rest) =
     (case kCGWindowOwnerName win of
        None \<Rightarrow> Inl AttributeError
      | Some owner \<Rightarrow>
          (case vscode_windows_of rest of
             Inl ex \<Rightarrow> Inl ex
           | Inr ws \<Rightarrow> Inr (if sublist ''code'' (lower owner) then win # ws else ws)))"

definition window_title :: "window \<Rightarrow> string" where
  \<comment> \<open>\<open>window.get("kCGWindowName", "").strip()\<close>\<close>
  "window_title win = strip (case kCGWindowName win of None \<Rightarrow> [] | Some n \<Rightarrow> n)"

definition get_vscode_window_names_cg ::
  "env \<Rightarrow> event list \<times> (py_exception + window_names)" where
  "get_vscode_window_names_cg e =
     (case vscode_windows_of (window_list e) of
        Inl ex \<Rightarrow> ([], Inl ex)
      | Inr vscode_windows \<Rightarrow>
          (log_debug (''Found '' @ str_of_nat (length vscode_windows) @
                      '' on-screen VSCode windows via CoreGraphics.''),
           Inr (if vscode_windows = [] then PyFalse
                else PyList (map window_title vscode_windows))))"

section \<open>The status parser (lines 73 to 87)\<close>

definition until_last_paren :: "string \<Rightarrow> string option" where
  \<comment> \<open>\<open>(.*)\)\<close> on the rest of a line: the group takes all it can, so it ends at the
      last closing parenthesis before the first newline\<close>
  "until_last_paren s =
     (let body = takeWhile (\<lambda>c. c \<noteq> CHR 0x0A) s
      in if CHR '')'' \<in> set body
         then Some (rev (tl (dropWhile (\<lambda>c. c \<noteq> CHR '')'') (rev body))))
         else None)"

definition match_here :: "string \<Rightarrow> string option" where
  \<comment> \<open>the pattern \<open>\|\s+Window \((.*)\)\<close> matched at the start of \<open>s\<close>; the result is
      group 1. \<open>\s+\<close> must take the whole run of whitespace, since \<open>W\<close> is none.\<close>
  "match_here s =
     (case s of
        [] \<Rightarrow> None
      | c # r \<Rightarrow>
          if c \<noteq> CHR ''|'' then None
          else if takeWhile is_space r = [] then None
          else if \<not> prefix ''Window ('' (dropWhile is_space r) then None
          else until_last_paren (drop 8 (dropWhile is_space r)))"

fun search :: "string \<Rightarrow> string option" where
  \<comment> \<open>\<open>workspace_stats_pattern.search(line)\<close>: the match at the leftmost position\<close>
  "search [] = None"
| "search (c # r) =
     (case match_here (c # r) of Some g \<Rightarrow> Some g | None \<Rightarrow> search r)"

fun scan_lines :: "bool \<Rightarrow> string list \<Rightarrow> string list" where
  \<comment> \<open>the \<open>for line in status_output.splitlines()\<close> loop; the flag is
      \<open>in_workspace_stats_section\<close>, the result is \<open>workspace_titles\<close>\<close>
  "scan_lines in_workspace_stats_section [] = []"
| "scan_lines in_workspace_stats_section (line # rest) =
     (if sublist ''Workspace Stats:'' line then scan_lines True rest
      else if in_workspace_stats_section then
        (case search line of
           Some g \<Rightarrow> strip g # scan_lines in_workspace_stats_section rest
         | None \<Rightarrow> scan_lines in_workspace_stats_section rest)
      else scan_lines in_workspace_stats_section rest)"

definition parse_workspace_titles :: "string \<Rightarrow> string list" where
  "parse_workspace_titles status_output = scan_lines False (splitlines status_output)"

section \<open>The reuse classifier (lines 89 to 109)\<close>

fun reusable_loop :: "string set \<Rightarrow> string list \<Rightarrow> event list \<times> bool" where
  \<comment> \<open>the \<open>for title in all_window_titles\<close> loop and the two statements after it\<close>
  "reusable_loop workspace_title_set [] =
     (log_debug ''No reusable window found after comparing with Workspace Stats.'', False)"
| "reusable_loop workspace_title_set (title # rest) =
     (if title = ''Welcome'' then
        (let (evs, r) = reusable_loop workspace_title_set rest
         in (log_debug (''Ignoring '' @ sq @ ''Welcome'' @ sq @ '' window.'') @ evs, r))
      else if title \<notin> workspace_title_set then
        (log_debug (''Found reusable window: '' @ sq @ title @ sq @
                    '' (not in workspace list).''), True)
      else reusable_loop workspace_title_set rest)"

definition classify :: "string list \<Rightarrow> string list \<Rightarrow> event list \<times> bool" where
  \<comment> \<open>from \<open>all_window_titles = sorted(all_window_titles)\<close> to the end of the function,
      for an \<open>all_window_titles\<close> that is a list\<close>
  "classify all_window_titles workspace_titles =
     (let all_window_titles = sort all_window_titles;
          workspace_titles = sort workspace_titles;
          workspace_title_set = set workspace_titles;
          evs1 = log_debug (''Found '' @ str_of_nat (length all_window_titles) @
                            '' total windows.'');
          evs2 = log_debug (''Found '' @ str_of_nat (card workspace_title_set) @
                            '' declared workspaces.'');
          (evs3, r) = reusable_loop workspace_title_set all_window_titles
      in (evs1 @ evs2 @ evs3, r))"

section \<open>\<open>find_reusable_window_from_status\<close>\<close>

definition find_reusable_window_from_status ::
  "env \<Rightarrow> event list \<times> (py_exception + bool)" where
  "find_reusable_window_from_status e =
     (case run_command e ''code --status'' of
        (evs0, Inl ex) \<Rightarrow> (evs0, Inl ex)
      | (evs0, Inr (status_output, stderr, retcode)) \<Rightarrow>
          if retcode \<noteq> 0 then
            (evs0 @ log_debug (''Failed to run '' @ sq @ ''code --status'' @ sq @
                               ''. Stderr: '' @ strip stderr), Inr False)
          else
            (case get_vscode_window_names_cg e of
               (evs1, Inl ex) \<Rightarrow> (evs0 @ evs1, Inl ex)
             | (evs1, Inr PyFalse) \<Rightarrow>
                 \<comment> \<open>\<open>sorted(False)\<close>: a \<open>bool\<close> is not iterable\<close>
                 (evs0 @ evs1, Inl TypeError)
             | (evs1, Inr (PyList all_window_titles)) \<Rightarrow>
                 (let (evs2, r) = classify all_window_titles
                                    (parse_workspace_titles status_output)
                  in (evs0 @ evs1 @ evs2, Inr r))))"

section \<open>\<open>activate_vscode\<close>\<close>

definition activate_vscode :: "env \<Rightarrow> event list \<times> bool" where
  "activate_vscode e =
     (if running_applications e \<noteq> 0 then
        ([Activate] @ log_debug ''Successfully activated the VSCode application.'', True)
      else (log_debug ''Could not find the running VSCode application to activate.'', False))"

section \<open>\<open>main\<close>\<close>

datatype outcome =
    Exit int                 \<comment> \<open>\<open>sys.exit\<close> with this code\<close>
  | Uncaught py_exception    \<comment> \<open>an exception leaves \<open>main\<close>: traceback, exit code 1\<close>

definition is_safe_char :: "char \<Rightarrow> bool" where
  \<comment> \<open>the characters \<open>shlex.quote\<close> leaves alone: letters, digits and \<open>_@%+=:,./-\<close>\<close>
  "is_safe_char c =
     (let n = (of_char c :: nat)
      in (97 \<le> n \<and> n \<le> 122) \<or> (65 \<le> n \<and> n \<le> 90) \<or> (48 \<le> n \<and> n \<le> 57)
         \<or> c \<in> set ''_@%+=:,./-'')"

definition quote :: "string \<Rightarrow> string" where
  \<comment> \<open>\<open>shlex.quote\<close>\<close>
  "quote s =
     (if s = [] then sq @ sq
      else if list_all is_safe_char s then s
      else sq @ concat (map (\<lambda>c. if [c] = sq then sq @ [CHR 0x22] @ sq @ [CHR 0x22] @ sq
                                  else [c]) s) @ sq)"

fun join :: "string \<Rightarrow> string list \<Rightarrow> string" where
  \<comment> \<open>\<open>sep.join(xs)\<close>\<close>
  "join sep [] = []"
| "join sep [x] = x"
| "join sep (x # y # ys) = x @ sep @ join sep (y # ys)"

definition launch :: "env \<Rightarrow> string list \<Rightarrow> event list \<times> (py_exception + unit)" where
  \<comment> \<open>\<open>subprocess.run(argv, check=False)\<close> in \<open>main\<close>: the return code is dropped,
      an exception is not caught\<close>
  "launch e argv =
     ([SubprocessRun argv],
      (case subprocess_run e argv of
         Completed out err rc \<Rightarrow> Inr ()
       | RaisesFileNotFound \<Rightarrow> Inl FileNotFoundError
       | RaisesOther msg \<Rightarrow> Inl (OtherException msg)))"

definition main :: "env \<Rightarrow> string list \<Rightarrow> event list \<times> outcome" where
  "main e files_to_open =
     (case is_vscode_running e of
        (evs0, False) \<Rightarrow>
          (let evs1 = evs0 @ log_debug ''No VSCode process running.''
           in if files_to_open \<noteq> [] then
                (case launch e ([''code'', ''--new-window''] @ files_to_open) of
                   (evs2, Inl ex) \<Rightarrow>
                     (evs1 @ log_debug ''Opening files in a new window.'' @ evs2, Uncaught ex)
                 | (evs2, Inr u) \<Rightarrow>
                     (evs1 @ log_debug ''Opening files in a new window.'' @ evs2, Exit 0))
              else (evs1 @ [PrintOut ''VSCode is not running.''], Exit 0))
      | (evs0, True) \<Rightarrow>
          (case find_reusable_window_from_status e of
             (evs1, Inl ex) \<Rightarrow> (evs0 @ evs1, Uncaught ex)
           | (evs1, Inr reusable_window_exists) \<Rightarrow>
               if files_to_open = [] then
                 (if reusable_window_exists then
                    (evs0 @ evs1 @
                     [PrintOut ''A reusable non-workspace VSCode window was found.''], Exit 0)
                  else
                    (evs0 @ evs1 @
                     [PrintOut ''No reusable non-workspace VSCode window was found.''], Exit 0))
               else
                 (let quoted_files = join '' '' (map quote files_to_open)
                  in if reusable_window_exists then
                       (let evs2 = log_debug (''Decision: A reusable non-workspace window '' @
                                              ''exists. Activating and reusing.'') @
                                   [PrintOut (''Opening files in a reused VSCode window: '' @
                                              quoted_files)];
                            (evs3, activated) = activate_vscode e
                        in case launch e ([''code'', ''--reuse-window''] @ files_to_open) of
                             (evs4, Inl ex) \<Rightarrow>
                               (evs0 @ evs1 @ evs2 @ evs3 @ evs4, Uncaught ex)
                           | (evs4, Inr u) \<Rightarrow>
                               (evs0 @ evs1 @ evs2 @ evs3 @ evs4, Exit 0))
                     else
                       (let evs2 = log_debug (''Decision: No suitable non-workspace window '' @
                                              ''found. Opening in a new window.'') @
                                   [PrintOut (''Opening files in a new VSCode window: '' @
                                              quoted_files)]
                        in case launch e ([''code'', ''--new-window''] @ files_to_open) of
                             (evs3, Inl ex) \<Rightarrow> (evs0 @ evs1 @ evs2 @ evs3, Uncaught ex)
                           | (evs3, Inr u) \<Rightarrow> (evs0 @ evs1 @ evs2 @ evs3, Exit 0)))))"

section \<open>Reading a trace\<close>

definition printed :: "event list \<Rightarrow> string list" where
  \<comment> \<open>the lines on standard output, in order\<close>
  "printed evs = concat (map (\<lambda>ev. case ev of PrintOut s \<Rightarrow> [s] | _ \<Rightarrow> []) evs)"

definition subprocesses :: "event list \<Rightarrow> string list list" where
  \<comment> \<open>the argument vectors given to \<open>subprocess.run\<close>, in order\<close>
  "subprocesses evs =
     concat (map (\<lambda>ev. case ev of SubprocessRun argv \<Rightarrow> [argv] | _ \<Rightarrow> []) evs)"

definition activations :: "event list \<Rightarrow> nat" where
  \<comment> \<open>how many times the application was brought to the foreground\<close>
  "activations evs = length (filter (\<lambda>ev. ev = Activate) evs)"

fun survives :: "proc_entry \<Rightarrow> bool" where
  \<comment> \<open>the entry can be read: the process has not vanished and is not restricted\<close>
  "survives (Raises err) = False"
| "survives (Cmdline c) = True"

section \<open>Concrete runs\<close>

definition scan_env :: env where
  \<comment> \<open>an enumeration with a vanished process, a restricted one, one with no arguments,
      an unrelated one and a helper of the editor\<close>
  "scan_env =
     \<lparr>process_iter =
        [Raises NoSuchProcess, Cmdline None, Raises AccessDenied, Cmdline (Some []),
         Cmdline (Some [''/sbin/launchd'']),
         Cmdline (Some [''/Applications/Visual Studio Code.app/Contents/MacOS/Electron'',
                        ''--type=renderer''])],
      subprocess_run = (\<lambda>argv. RaisesFileNotFound),
      window_list = [],
      running_applications = 0\<rparr>"

definition editor_process :: proc_entry where
  "editor_process =
     Cmdline (Some [''/Applications/Visual Studio Code.app/Contents/MacOS/Electron''])"

definition failing_status_env :: env where
  \<comment> \<open>the editor runs, the status command exits with code 2\<close>
  "failing_status_env =
     \<lparr>process_iter = [editor_process],
      subprocess_run = (\<lambda>argv. Completed [] ''boom'' 2),
      window_list = [\<lparr>kCGWindowOwnerName = Some ''Code'', kCGWindowName = Some ''notes''\<rparr>],
      running_applications = 1\<rparr>"

definition untitled_env :: env where
  \<comment> \<open>the editor runs with one window that has no title and one workspace window;
      another application has a window too\<close>
  "untitled_env =
     \<lparr>process_iter = [editor_process],
      subprocess_run =
        (\<lambda>argv. Completed (''Workspace Stats:'' @ [CHR 0x0A] @ ''|  Window (proj)'') [] 0),
      window_list =
        [\<lparr>kCGWindowOwnerName = Some ''Code'', kCGWindowName = None\<rparr>,
         \<lparr>kCGWindowOwnerName = Some ''Finder'', kCGWindowName = Some ''Desktop''\<rparr>,
         \<lparr>kCGWindowOwnerName = Some ''Code'', kCGWindowName = Some ''proj''\<rparr>],
      running_applications = 1\<rparr>"

definition other_process :: proc_entry where
  "other_process = Cmdline (Some [''/sbin/launchd''])"

definition status_text :: string where
  \<comment> \<open>a status report with one window in the process list and one workspace window\<close>
  "status_text =
     ''|  Window (notes)'' @ [CHR 0x0A] @
     ''Workspace Stats:'' @ [CHR 0x0A] @
     ''|  Window (proj)'' @ [CHR 0x0A] @
     ''|    Folder (proj): 12 files'' @ [CHR 0x0A]"

definition no_window_env :: env where
  \<comment> \<open>the editor runs and answers the status command, and none of its windows is on
      screen (all of them are minimised, say): the on-screen windows belong to others\<close>
  "no_window_env =
     \<lparr>process_iter = [other_process, editor_process],
      subprocess_run = (\<lambda>argv. Completed status_text [] 0),
      window_list = [\<lparr>kCGWindowOwnerName = Some ''Finder'', kCGWindowName = Some ''Desktop''\<rparr>],
      running_applications = 1\<rparr>"

definition idle_missing_env :: env where
  \<comment> \<open>the editor does not run and its \<open>code\<close> command is not in the environment\<close>
  "idle_missing_env =
     \<lparr>process_iter = [other_process, Raises AccessDenied],
      subprocess_run = (\<lambda>argv. RaisesFileNotFound),
      window_list = [\<lparr>kCGWindowOwnerName = Some ''Finder'', kCGWindowName = Some ''Desktop''\<rparr>],
      running_applications = 0\<rparr>"

definition nonzero_launch_env :: env where
  \<comment> \<open>the editor runs with the windows \<open>notes\<close> and \<open>proj\<close>; the status command
      succeeds, every other \<open>code\<close> command exits with code 1\<close>
  "nonzero_launch_env =
     \<lparr>process_iter = [other_process, editor_process],
      subprocess_run =
        (\<lambda>argv. if argv = [''code'', ''--status''] then Completed status_text [] 0
                 else Completed [] [] 1),
      window_list =
        [\<lparr>kCGWindowOwnerName = Some ''Code'', kCGWindowName = Some ''notes''\<rparr>,
         \<lparr>kCGWindowOwnerName = Some ''Code'', kCGWindowName = Some ''proj''\<rparr>],
      running_applications = 1\<rparr>"

definition reuse_report :: "bool \<Rightarrow> string" where
  \<comment> \<open>the two lines \<open>main\<close> prints in the branch \<open>if not files_to_open\<close>\<close>
  "reuse_report b =
     (if b then ''A reusable non-workspace VSCode window was found.''
      else ''No reusable non-workspace VSCode window was found.'')"

definition launch_outcome :: "env \<Rightarrow> string list \<Rightarrow> outcome" where
  \<comment> \<open>how \<open>main\<close> ends after \<open>subprocess.run(argv, check=False)\<close> as its last step\<close>
  "launch_outcome e argv =
     (case subprocess_run e argv of
        Completed out err rc \<Rightarrow> Exit 0
      | RaisesFileNotFound \<Rightarrow> Uncaught FileNotFoundError
      | RaisesOther msg \<Rightarrow> Uncaught (OtherException msg))"

definition only_logs :: "event list \<Rightarrow> bool" where
  \<comment> \<open>every event of the trace is a debug line\<close>
  "only_logs evs = list_all (\<lambda>ev. case ev of LogDebug s \<Rightarrow> True | _ \<Rightarrow> False) evs"

section \<open>The status parser, as described\<close>







section \<open>Properties of the classifier\<close>

lemma reusable_loop_iff:
  "snd (reusable_loop W ts) = (\<exists>t \<in> set ts. t \<notin> W \<and> t \<noteq> ''Welcome'')"
  by (induction ts) (auto split: prod.splits)

lemma classify_iff:
  "snd (classify ts ws) = (\<exists>t \<in> set ts. t \<notin> set ws \<and> t \<noteq> ''Welcome'')"
proof -
  have "snd (classify ts ws) = snd (reusable_loop (set (sort ws)) (sort ts))"
    by (simp add: classify_def Let_def split: prod.splits)
  then show ?thesis
    by (simp add: reusable_loop_iff)
qed

text \<open>
  Claim C1. Whatever the on-screen titles and the workspace titles are, the classifier
  answers true exactly when some on-screen title is neither a workspace title nor the
  title \<open>Welcome\<close>. It answers true on on-screen titles A and Welcome with no workspace
  title, false on Welcome alone with no workspace title, and false on A with workspace
  title A.
\<close>

theorem reuse_classifier_spec:
  "(snd (classify onscreen workspace) \<longleftrightarrow>
      (\<exists>t \<in> set onscreen. t \<notin> set workspace \<and> t \<noteq> ''Welcome''))
   \<and> snd (classify [''A'', ''Welcome''] [])
   \<and> \<not> snd (classify [''Welcome''] [])
   \<and> \<not> snd (classify [''A''] [''A''])"
  by (simp add: classify_iff)

theorem reuse_classifier_spec_witness:
  "snd (classify [''Welcome'', ''notes.txt'', ''proj''] [''proj''])"
  using reuse_classifier_spec [of "[''Welcome'', ''notes.txt'', ''proj'']" "[''proj'']"]
  by simp

text \<open>
  Claim C9. The classifier's answer is a function of the two sets of titles: two runs
  that receive the same set of on-screen titles and the same set of workspace titles,
  in whatever order and with whatever repetitions, give the same boolean.
\<close>

theorem reuse_classifier_deterministic:
  "set onscreen = set onscreen' \<Longrightarrow> set workspace = set workspace' \<Longrightarrow>
   snd (classify onscreen workspace) = snd (classify onscreen' workspace')"
  by (simp add: classify_iff)

theorem reuse_classifier_deterministic_witness:
  "snd (classify [''b'', ''a'', ''b''] [''w'', ''a'']) =
   snd (classify [''a'', ''b''] [''a'', ''w'', ''a''])"
proof -
  have 1: "set [''b'', ''a'', ''b''] = set [''a'', ''b'']" by auto
  have 2: "set [''w'', ''a''] = set [''a'', ''w'', ''a'']" by auto
  show ?thesis by (rule reuse_classifier_deterministic [OF 1 2])
qed

section \<open>Properties of the process scanner\<close>

lemma scan_processes_spec:
  "scan_processes ps =
     ([], \<exists>p \<in> set ps. \<exists>cmdline. p = Cmdline (Some cmdline) \<and>
            (\<exists>cmd_part \<in> set cmdline. sublist target_pattern cmd_part))"
  by (induction ps rule: scan_processes.induct) (auto simp: list_ex_iff)

lemma scan_processes_filter:
  "scan_processes (filter survives ps) = scan_processes ps"
  by (induction ps rule: scan_processes.induct) auto

text \<open>
  Claim C8. The process scanner has no effect on the outside world. It returns a boolean
  for every enumeration, also when reading some entries raises \<open>NoSuchProcess\<close>,
  \<open>AccessDenied\<close> or \<open>ZombieProcess\<close>: those entries are skipped and the rest is scanned
  as if they were not there. The boolean is true exactly when some entry that can be read
  has a command-line argument with the bundle path \<open>Visual Studio Code.app\<close> inside.
\<close>

theorem is_vscode_running_spec:
  "fst (is_vscode_running e) = []
   \<and> (snd (is_vscode_running e) \<longleftrightarrow>
        (\<exists>p \<in> set (process_iter e). survives p \<and>
           (\<exists>cmdline. p = Cmdline (Some cmdline) \<and>
              (\<exists>cmd_part \<in> set cmdline. sublist target_pattern cmd_part))))
   \<and> is_vscode_running (e\<lparr>process_iter := filter survives (process_iter e)\<rparr>)
       = is_vscode_running e"
proof -
  have "(\<exists>p \<in> set ps. survives p \<and> (\<exists>cmdline. p = Cmdline (Some cmdline) \<and>
            (\<exists>cmd_part \<in> set cmdline. sublist target_pattern cmd_part)))
        = snd (scan_processes ps)" for ps
    unfolding scan_processes_spec snd_conv
  proof
    assume "\<exists>p \<in> set ps. survives p \<and> (\<exists>cmdline. p = Cmdline (Some cmdline) \<and>
            (\<exists>cmd_part \<in> set cmdline. sublist target_pattern cmd_part))"
    then show "\<exists>p \<in> set ps. \<exists>cmdline. p = Cmdline (Some cmdline) \<and>
            (\<exists>cmd_part \<in> set cmdline. sublist target_pattern cmd_part)"
      by blast
  next
    assume "\<exists>p \<in> set ps. \<exists>cmdline. p = Cmdline (Some cmdline) \<and>
            (\<exists>cmd_part \<in> set cmdline. sublist target_pattern cmd_part)"
    then obtain p cmdline where p: "p \<in> set ps" "p = Cmdline (Some cmdline)"
      "\<exists>cmd_part \<in> set cmdline. sublist target_pattern cmd_part"
      by blast
    from p(2) have "survives p" by simp
    with p show "\<exists>p \<in> set ps. survives p \<and> (\<exists>cmdline. p = Cmdline (Some cmdline) \<and>
            (\<exists>cmd_part \<in> set cmdline. sublist target_pattern cmd_part))"
      by blast
  qed
  then show ?thesis
    by (simp add: is_vscode_running_def scan_processes_filter)
      (simp add: scan_processes_spec)
qed

theorem is_vscode_running_spec_witness:
  "is_vscode_running scan_env = ([], True)"
proof -
  have "sublist target_pattern
          ''/Applications/Visual Studio Code.app/Contents/MacOS/Electron''"
    by (simp add: target_pattern_def sublist_Cons_right)
  then have "snd (is_vscode_running scan_env)"
    using is_vscode_running_spec [of scan_env]
    by (simp add: scan_env_def)
  moreover have "fst (is_vscode_running scan_env) = []"
    using is_vscode_running_spec [of scan_env] by simp
  ultimately show ?thesis
    by (simp add: prod_eq_iff)
qed


section \<open>Properties of the status parser\<close>

subsection \<open>What the pattern matches\<close>












subsection \<open>What the loop captures\<close>







section \<open>Properties of the status command and the window enumerator\<close>

lemma split_code_status: "split ''code --status'' = [''code'', ''--status'']"
  by code_simp

lemma run_command_completed:
  "subprocess_run e [''code'', ''--status''] = Completed out err rc \<Longrightarrow>
   run_command e ''code --status'' =
     ([SubprocessRun [''code'', ''--status'']], Inr (out, err, rc))"
  by (simp add: run_command_def split_code_status)

lemma run_command_missing:
  "subprocess_run e [''code'', ''--status''] = RaisesFileNotFound \<Longrightarrow>
   run_command e ''code --status'' =
     ([SubprocessRun [''code'', ''--status''], LogDebug ''Command not found: code''],
      Inr ([], ''Command not found: code'', 127))"
  by (simp add: run_command_def split_code_status log_debug_def)

lemma run_command_other:
  "subprocess_run e [''code'', ''--status''] = RaisesOther msg \<Longrightarrow>
   snd (run_command e ''code --status'') = Inr ([], msg, 1)"
  by (simp add: run_command_def split_code_status)

lemma run_command_returns:
  "\<exists>out err rc. snd (run_command e ''code --status'') = Inr (out, err, rc)"
  by (cases "subprocess_run e [''code'', ''--status'']")
     (simp_all add: run_command_def split_code_status)

lemma find_reusable_nonzero:
  "snd (run_command e ''code --status'') = Inr (out, err, rc) \<Longrightarrow> rc \<noteq> 0 \<Longrightarrow>
   snd (find_reusable_window_from_status e) = Inr False"
  by (cases "run_command e ''code --status''")
     (simp add: find_reusable_window_from_status_def)

text \<open>
  Claim C4. Whenever the status command ends with a return code other than 0,
  \<open>find_reusable_window_from_status\<close> returns false and raises nothing. That includes the
  command missing from the environment: \<open>run_command\<close> then reports return code 127.
  \<open>run_command\<close> itself returns a triple in every case.
\<close>

theorem status_failure_is_no_reusable_window:
  "(snd (run_command e ''code --status'') = Inr (out, err, rc) \<and> rc \<noteq> 0 \<longrightarrow>
      snd (find_reusable_window_from_status e) = Inr False)
   \<and> (subprocess_run e [''code'', ''--status''] = Completed out err rc \<longrightarrow>
        snd (run_command e ''code --status'') = Inr (out, err, rc))
   \<and> (subprocess_run e [''code'', ''--status''] = RaisesFileNotFound \<longrightarrow>
        snd (run_command e ''code --status'') = Inr ([], ''Command not found: code'', 127)
        \<and> snd (find_reusable_window_from_status e) = Inr False)
   \<and> (\<exists>out' err' rc'. snd (run_command e ''code --status'') = Inr (out', err', rc'))"
proof -
  have "snd (find_reusable_window_from_status e) = Inr False"
    if "subprocess_run e [''code'', ''--status''] = RaisesFileNotFound"
    using find_reusable_nonzero [of e "[]" "''Command not found: code''" 127]
      run_command_missing [OF that]
    by simp
  then show ?thesis
    using find_reusable_nonzero [of e out err rc] run_command_completed [of e out err rc]
      run_command_missing [of e] run_command_returns [of e]
    by simp
qed

theorem status_failure_is_no_reusable_window_witness:
  "snd (find_reusable_window_from_status scan_env) = Inr False
   \<and> snd (find_reusable_window_from_status failing_status_env) = Inr False"
proof -
  have 1: "subprocess_run scan_env [''code'', ''--status''] = RaisesFileNotFound"
    by (simp add: scan_env_def)
  have 2: "subprocess_run failing_status_env [''code'', ''--status''] = Completed [] ''boom'' 2"
    by (simp add: failing_status_env_def)
  show ?thesis
    using status_failure_is_no_reusable_window [of scan_env "[]" "[]" 0]
      status_failure_is_no_reusable_window [of failing_status_env "[]" "''boom''" 2]
      1 2
    by simp
qed

lemma strip_Nil: "strip [] = []"
  by (simp add: strip_def)

lemma get_vscode_window_names_cg_list:
  "vscode_windows_of (window_list e) = Inr ws \<Longrightarrow> ws \<noteq> [] \<Longrightarrow>
   snd (get_vscode_window_names_cg e) = Inr (PyList (map window_title ws))"
  by (simp add: get_vscode_window_names_cg_def)

lemma get_vscode_window_names_cg_false:
  "vscode_windows_of (window_list e) = Inr [] \<Longrightarrow>
   snd (get_vscode_window_names_cg e) = Inr PyFalse"
  by (simp add: get_vscode_window_names_cg_def)

lemma find_reusable_list:
  assumes "subprocess_run e [''code'', ''--status''] = Completed out err 0"
      and "snd (get_vscode_window_names_cg e) = Inr (PyList titles)"
  shows "snd (find_reusable_window_from_status e) =
           Inr (snd (classify titles (parse_workspace_titles out)))"
  using assms
  by (cases "get_vscode_window_names_cg e")
     (simp add: find_reusable_window_from_status_def run_command_completed
           split: prod.splits)

lemma find_reusable_false_sentinel:
  assumes "subprocess_run e [''code'', ''--status''] = Completed out err 0"
      and "snd (get_vscode_window_names_cg e) = Inr PyFalse"
  shows "snd (find_reusable_window_from_status e) = Inl TypeError"
  using assms
  by (cases "get_vscode_window_names_cg e")
     (simp add: find_reusable_window_from_status_def run_command_completed)

text \<open>
  Claim C10. Take a run in which the enumerator gets its list of editor windows, and in
  it a window whose title is absent or empty. The title the enumerator returns for that
  window is the empty string, and the enumerator returns a list holding it. The empty
  string is not \<open>Welcome\<close>, so the classifier answers true whenever the empty string is not
  among the workspace titles; and when the status command succeeds and the empty string
  is not among the titles parsed from its output, \<open>find_reusable_window_from_status\<close>
  returns true.
\<close>

theorem untitled_window_is_reusable:
  assumes "vscode_windows_of (window_list e) = Inr vscode_windows"
      and "win \<in> set vscode_windows"
      and "kCGWindowName win = None \<or> kCGWindowName win = Some []"
  shows "window_title win = []
       \<and> snd (get_vscode_window_names_cg e) = Inr (PyList (map window_title vscode_windows))
       \<and> [] \<in> set (map window_title vscode_windows)
       \<and> ([] \<notin> set workspace \<longrightarrow>
            snd (classify (map window_title vscode_windows) workspace))
       \<and> (subprocess_run e [''code'', ''--status''] = Completed out err 0
            \<and> [] \<notin> set (parse_workspace_titles out) \<longrightarrow>
            snd (find_reusable_window_from_status e) = Inr True)"
proof -
  have title: "window_title win = []"
    using assms(3) by (auto simp: window_title_def strip_Nil)
  have nonempty: "vscode_windows \<noteq> []"
    using assms(2) by auto
  have names: "snd (get_vscode_window_names_cg e) =
                 Inr (PyList (map window_title vscode_windows))"
    by (rule get_vscode_window_names_cg_list [OF assms(1) nonempty])
  have mem: "[] \<in> set (map window_title vscode_windows)"
    using assms(2) title by force
  have cls: "snd (classify (map window_title vscode_windows) ws)" if "[] \<notin> set ws" for ws
    unfolding classify_iff using mem that by (intro bexI [of _ "[]"]) simp_all
  have "snd (find_reusable_window_from_status e) = Inr True"
    if "subprocess_run e [''code'', ''--status''] = Completed out err 0"
      and "[] \<notin> set (parse_workspace_titles out)"
    using find_reusable_list [OF that(1) names] cls [OF that(2)] by simp
  with title names mem cls show ?thesis
    by blast
qed

theorem untitled_window_is_reusable_witness:
  "snd (find_reusable_window_from_status untitled_env) = Inr True"
proof -
  let ?w = "\<lparr>kCGWindowOwnerName = Some ''Code'', kCGWindowName = None\<rparr>"
  let ?p = "\<lparr>kCGWindowOwnerName = Some ''Code'', kCGWindowName = Some ''proj''\<rparr>"
  let ?out = "''Workspace Stats:'' @ [CHR 0x0A] @ ''|  Window (proj)''"
  have 1: "vscode_windows_of (window_list untitled_env) = Inr [?w, ?p]"
    by code_simp
  have 2: "?w \<in> set [?w, ?p]"
    by simp
  have 3: "kCGWindowName ?w = None \<or> kCGWindowName ?w = Some []"
    by simp
  have 4: "subprocess_run untitled_env [''code'', ''--status''] = Completed ?out [] 0"
    by (simp add: untitled_env_def)
  have 5: "parse_workspace_titles ?out = [''proj'']"
    by code_simp
  show ?thesis
    using untitled_window_is_reusable [OF 1 2 3, of "[]" ?out "[]"] 4 5
    by simp
qed

section \<open>Properties of \<open>main\<close>\<close>

lemma is_vscode_running_pair:
  "is_vscode_running e = ([], snd (is_vscode_running e))"
  by (simp add: is_vscode_running_def scan_processes_spec)

lemma main_not_running_files:
  assumes "\<not> snd (is_vscode_running e)" and "files \<noteq> []"
  shows "main e files =
           ([LogDebug ''No VSCode process running.'',
             LogDebug ''Opening files in a new window.'',
             SubprocessRun ([''code'', ''--new-window''] @ files)],
            launch_outcome e ([''code'', ''--new-window''] @ files))"
proof -
  have "is_vscode_running e = ([], False)"
    using assms(1) is_vscode_running_pair [of e] by simp
  then show ?thesis
    using assms(2)
    by (simp add: main_def launch_def launch_outcome_def log_debug_def
          split: run_outcome.splits)
qed

lemma main_not_running_no_files:
  assumes "\<not> snd (is_vscode_running e)"
  shows "main e [] =
           ([LogDebug ''No VSCode process running.'', PrintOut ''VSCode is not running.''],
            Exit 0)"
proof -
  have "is_vscode_running e = ([], False)"
    using assms is_vscode_running_pair [of e] by simp
  then show ?thesis
    by (simp add: main_def log_debug_def)
qed

lemma main_running_raises:
  assumes "snd (is_vscode_running e)"
      and "find_reusable_window_from_status e = (evs, Inl ex)"
  shows "main e files = (evs, Uncaught ex)"
proof -
  have "is_vscode_running e = ([], True)"
    using assms(1) is_vscode_running_pair [of e] by simp
  then show ?thesis
    using assms(2) by (simp add: main_def)
qed

lemma main_running_query:
  assumes "snd (is_vscode_running e)"
      and "find_reusable_window_from_status e = (evs, Inr b)"
  shows "main e [] = (evs @ [PrintOut (reuse_report b)], Exit 0)"
proof -
  have "is_vscode_running e = ([], True)"
    using assms(1) is_vscode_running_pair [of e] by simp
  then show ?thesis
    using assms(2) by (simp add: main_def reuse_report_def)
qed






lemma nonzero_launch_env_running: "snd (is_vscode_running nonzero_launch_env)"
  by code_simp



text \<open>
  Claim C3, at an input where the code does not do what the claim says. The editor runs,
  the status command succeeds, and no window of the editor is on screen: the enumerator
  returns \<open>False\<close>, \<open>sorted(False)\<close> raises \<open>TypeError\<close>, nothing catches it and it
  leaves \<open>main\<close>, with files to open or without.
\<close>

theorem main_fatal_without_onscreen_window:
  "snd (get_vscode_window_names_cg no_window_env) = Inr PyFalse
   \<and> snd (main no_window_env []) = Uncaught TypeError
   \<and> snd (main no_window_env [''/tmp/a.txt'']) = Uncaught TypeError"
proof -
  have run: "snd (is_vscode_running no_window_env)"
    by code_simp
  have st: "subprocess_run no_window_env [''code'', ''--status''] = Completed status_text [] 0"
    by (simp add: no_window_env_def)
  have "vscode_windows_of (window_list no_window_env) = Inr []"
    by code_simp
  then have names: "snd (get_vscode_window_names_cg no_window_env) = Inr PyFalse"
    by (rule get_vscode_window_names_cg_false)
  have "snd (find_reusable_window_from_status no_window_env) = Inl TypeError"
    by (rule find_reusable_false_sentinel [OF st names])
  then obtain evs where "find_reusable_window_from_status no_window_env = (evs, Inl TypeError)"
    by (cases "find_reusable_window_from_status no_window_env") simp
  then have "snd (main no_window_env files) = Uncaught TypeError" for files
    using main_running_raises [OF run] by simp
  with names show ?thesis
    by simp
qed

text \<open>
  Claim C5, at an input where the code does not do what the claim says. The editor does
  not run, one file is to be opened, and the \<open>code\<close> command is not in the environment:
  \<open>main\<close> takes the new-window path once, \<open>subprocess.run\<close> raises
  \<open>FileNotFoundError\<close>, nothing catches it, and the run does not reach \<open>sys.exit(0)\<close>.
\<close>

theorem main_fatal_when_code_missing:
  "main idle_missing_env [''/tmp/a.txt''] =
     ([LogDebug ''No VSCode process running.'',
       LogDebug ''Opening files in a new window.'',
       SubprocessRun [''code'', ''--new-window'', ''/tmp/a.txt'']],
      Uncaught FileNotFoundError)"
proof -
  have "\<not> snd (is_vscode_running idle_missing_env)"
    by code_simp
  then show ?thesis
    by (simp add: main_not_running_files launch_outcome_def idle_missing_env_def)
qed

lemma only_logs_append: "only_logs (a @ b) \<longleftrightarrow> only_logs a \<and> only_logs b"
  by (simp add: only_logs_def)

lemma only_logs_log_debug: "only_logs (log_debug s)"
  by (simp add: only_logs_def log_debug_def)

lemma only_logs_trace:
  "only_logs evs \<Longrightarrow> printed evs = [] \<and> subprocesses evs = [] \<and> activations evs = 0"
  by (induction evs)
     (auto simp: only_logs_def printed_def subprocesses_def activations_def
           split: event.splits)

lemma reusable_loop_only_logs: "only_logs (fst (reusable_loop W ts))"
proof (induction ts)
  case Nil
  show ?case
    by (simp add: only_logs_log_debug)
next
  case (Cons t ts)
  obtain evs r where "reusable_loop W ts = (evs, r)"
    by (cases "reusable_loop W ts")
  with Cons show ?case
    by (simp add: only_logs_append only_logs_log_debug)
qed

lemma classify_only_logs: "only_logs (fst (classify ts ws))"
proof -
  obtain evs r where l: "reusable_loop (set (sort ws)) (sort ts) = (evs, r)"
    by (cases "reusable_loop (set (sort ws)) (sort ts)")
  have "only_logs evs"
    using reusable_loop_only_logs [of "set (sort ws)" "sort ts"] l by simp
  with l show ?thesis
    by (simp add: classify_def Let_def only_logs_append only_logs_log_debug)
qed

lemma get_vscode_window_names_cg_only_logs:
  "only_logs (fst (get_vscode_window_names_cg e))"
  by (simp add: get_vscode_window_names_cg_def only_logs_log_debug split: sum.splits)
     (simp add: only_logs_def)

lemma run_command_events:
  "\<exists>logs. fst (run_command e ''code --status'') = SubprocessRun [''code'', ''--status''] # logs
          \<and> only_logs logs"
  by (cases "subprocess_run e [''code'', ''--status'']")
     (simp_all add: run_command_def split_code_status only_logs_def log_debug_def)

lemma find_reusable_events:
  "\<exists>logs. fst (find_reusable_window_from_status e) =
            SubprocessRun [''code'', ''--status''] # logs
          \<and> only_logs logs"
proof -
  obtain logs0 where l0: "fst (run_command e ''code --status'') =
      SubprocessRun [''code'', ''--status''] # logs0" "only_logs logs0"
    using run_command_events by blast
  obtain out err rc where r: "snd (run_command e ''code --status'') = Inr (out, err, rc)"
    using run_command_returns by blast
  have rc_eq: "run_command e ''code --status'' =
                 (SubprocessRun [''code'', ''--status''] # logs0, Inr (out, err, rc))"
    using l0(1) r by (simp add: prod_eq_iff)
  obtain evs1 r1 where g: "get_vscode_window_names_cg e = (evs1, r1)"
    by (cases "get_vscode_window_names_cg e")
  have l1: "only_logs evs1"
    using get_vscode_window_names_cg_only_logs [of e] g by simp
  have l2: "only_logs (fst (classify ts ws))" for ts ws
    by (rule classify_only_logs)
  show ?thesis
  proof (cases "rc = 0")
    case False
    then show ?thesis
      using rc_eq l0(2)
      by (simp add: find_reusable_window_from_status_def only_logs_append
            only_logs_log_debug)
  next
    case True
    show ?thesis
    proof (cases r1)
      case (Inl ex)
      with True rc_eq g l0(2) l1 show ?thesis
        by (simp add: find_reusable_window_from_status_def only_logs_append)
    next
      case (Inr names)
      show ?thesis
      proof (cases names)
        case PyFalse
        with Inr True rc_eq g l0(2) l1 show ?thesis
          by (simp add: find_reusable_window_from_status_def only_logs_append)
      next
        case (PyList titles)
        obtain evs2 b where c: "classify titles (parse_workspace_titles out) = (evs2, b)"
          by (cases "classify titles (parse_workspace_titles out)")
        have "only_logs evs2"
          using l2 [of titles "parse_workspace_titles out"] c by simp
        with PyList Inr True rc_eq g l0(2) l1 c show ?thesis
          by (simp add: find_reusable_window_from_status_def only_logs_append)
      qed
    qed
  qed
qed

lemma find_reusable_trace:
  "printed (fst (find_reusable_window_from_status e)) = []"
  "subprocesses (fst (find_reusable_window_from_status e)) = [[''code'', ''--status'']]"
  "activations (fst (find_reusable_window_from_status e)) = 0"
proof -
  obtain logs where l: "fst (find_reusable_window_from_status e) =
      SubprocessRun [''code'', ''--status''] # logs" "only_logs logs"
    using find_reusable_events by blast
  from only_logs_trace [OF l(2)] l(1)
  show "printed (fst (find_reusable_window_from_status e)) = []"
    and "subprocesses (fst (find_reusable_window_from_status e)) = [[''code'', ''--status'']]"
    and "activations (fst (find_reusable_window_from_status e)) = 0"
    by (simp_all add: printed_def subprocesses_def activations_def)
qed

text \<open>
  With no file given, \<open>main\<close> starts no subprocess other than the status command and
  never activates the application. What it prints and how it ends depends on the branch
  it takes.
\<close>

lemma query_only_trace:
  "set (subprocesses (fst (main e []))) \<subseteq> {[''code'', ''--status'']}
   \<and> activations (fst (main e [])) = 0
   \<and> (\<not> snd (is_vscode_running e) \<longrightarrow>
         printed (fst (main e [])) = [''VSCode is not running.'']
         \<and> snd (main e []) = Exit 0)
   \<and> (snd (is_vscode_running e) \<and> snd (find_reusable_window_from_status e) = Inr b \<longrightarrow>
         printed (fst (main e [])) = [reuse_report b]
         \<and> snd (main e []) = Exit 0)"
proof (cases "snd (is_vscode_running e)")
  case False
  then show ?thesis
    by (simp add: main_not_running_no_files printed_def subprocesses_def activations_def)
next
  case True
  obtain evs r where f: "find_reusable_window_from_status e = (evs, r)"
    by (cases "find_reusable_window_from_status e")
  have tr: "printed evs = []" "subprocesses evs = [[''code'', ''--status'']]"
    "activations evs = 0"
    using find_reusable_trace [of e] f by simp_all
  show ?thesis
  proof (cases r)
    case (Inl ex)
    then show ?thesis
      using True f tr main_running_raises [OF True, of evs ex "[]"] by simp
  next
    case (Inr b')
    have "main e [] = (evs @ [PrintOut (reuse_report b')], Exit 0)"
      using main_running_query [OF True] f Inr by simp
    then show ?thesis
      using True f Inr tr
      by (simp add: printed_def subprocesses_def activations_def)
  qed
qed

lemma no_window_env_running: "snd (is_vscode_running no_window_env)"
  by code_simp

lemma no_window_env_enumerator:
  "get_vscode_window_names_cg no_window_env =
     ([LogDebug ''Found 0 on-screen VSCode windows via CoreGraphics.''], Inr PyFalse)"
  by code_simp

lemma no_window_env_find:
  "find_reusable_window_from_status no_window_env =
     ([SubprocessRun [''code'', ''--status''],
       LogDebug ''Found 0 on-screen VSCode windows via CoreGraphics.''],
      Inl TypeError)"
proof -
  have "run_command no_window_env ''code --status'' =
          ([SubprocessRun [''code'', ''--status'']], Inr (status_text, [], 0))"
    by (rule run_command_completed) (simp add: no_window_env_def)
  then show ?thesis
    by (simp add: find_reusable_window_from_status_def no_window_env_enumerator)
qed

text \<open>
  Claim C6, at an input where the code does not do what the claim says. No file is given,
  the editor runs, the status command succeeds, and no window of the editor is on screen.
  As the claim says, \<open>main\<close> launches nothing: the status command is the only
  subprocess. But the enumerator returns \<open>False\<close>, \<open>sorted(False)\<close> raises
  \<open>TypeError\<close> before the branch \<open>if not files_to_open\<close> is reached, and the run
  prints nothing and does not reach \<open>sys.exit(0)\<close>.
\<close>

theorem query_only_fatal_without_onscreen_window:
  "main no_window_env [] =
     ([SubprocessRun [''code'', ''--status''],
       LogDebug ''Found 0 on-screen VSCode windows via CoreGraphics.''],
      Uncaught TypeError)
   \<and> printed (fst (main no_window_env [])) = []
   \<and> subprocesses (fst (main no_window_env [])) = [[''code'', ''--status'']]"
proof -
  have "main no_window_env [] =
     ([SubprocessRun [''code'', ''--status''],
       LogDebug ''Found 0 on-screen VSCode windows via CoreGraphics.''],
      Uncaught TypeError)"
    by (rule main_running_raises [OF no_window_env_running no_window_env_find])
  then show ?thesis
    by (simp add: printed_def subprocesses_def)
qed

end
